theory Spec2Isabelle
  imports
    Main
    "HOL-Library.Sublist"
    "HOL-Library.Char_ord"
    "HOL-Library.List_Lexorder"
    "HOL-Library.Product_Lexorder"
    "HOL-Library.Multiset"
begin

section \<open>Ticker search: the symbol-file parser, the day cache and the ranked filter\<close>

text \<open>
  The program is one Python module, \<^verbatim>\<open>ticker_search.py\<close>. It fetches the NASDAQ Trader
  symbol directory, parses it into \<open>(symbol, name)\<close> pairs, keeps a pickled copy for the
  day, and filters the list against the text typed into a search box.

  Text is modelled as \<^typ>\<open>string\<close>. The symbol directory is an ASCII file, and the model
  of \<^verbatim>\<open>str.lower\<close>, \<^verbatim>\<open>str.upper\<close>, \<^verbatim>\<open>str.strip\<close> and \<^verbatim>\<open>str.splitlines\<close> is the one
  Python has on ASCII text: only the 26 letters change case, the white space is
  \<open>0x09..0x0D\<close>, \<open>0x1C..0x1F\<close> and the blank, the line boundaries are
  \<open>0x0A..0x0D\<close> and \<open>0x1C..0x1E\<close>, with CR LF counted once. Strings compare as in
  Python: character by character on the code, a proper prefix first.
\<close>

subsection \<open>Python's string operations\<close>

definition lower_char :: "char \<Rightarrow> char" where
  "lower_char c =
     (let k = (of_char c :: nat) in if 65 \<le> k \<and> k \<le> 90 then char_of (k + 32) else c)"

definition upper_char :: "char \<Rightarrow> char" where
  "upper_char c =
     (let k = (of_char c :: nat) in if 97 \<le> k \<and> k \<le> 122 then char_of (k - 32) else c)"

definition lower :: "string \<Rightarrow> string" where
  "lower s = map lower_char s"

definition upper :: "string \<Rightarrow> string" where
  "upper s = map upper_char s"

definition is_space :: "char \<Rightarrow> bool" where
  "is_space c =
     (let k = (of_char c :: nat) in (9 \<le> k \<and> k \<le> 13) \<or> (28 \<le> k \<and> k \<le> 32))"

definition lstrip :: "string \<Rightarrow> string" where
  "lstrip s = dropWhile is_space s"

definition rstrip :: "string \<Rightarrow> string" where
  "rstrip s = rev (dropWhile is_space (rev s))"

definition strip :: "string \<Rightarrow> string" where
  "strip s = rstrip (lstrip s)"

definition is_linebreak :: "char \<Rightarrow> bool" where
  "is_linebreak c =
     (let k = (of_char c :: nat) in (10 \<le> k \<and> k \<le> 13) \<or> (28 \<le> k \<and> k \<le> 30))"

text \<open>
  \<^verbatim>\<open>str.splitlines()\<close>: \<open>cur\<close> holds the characters of the line being read, last one
  first. Every line boundary closes a line, also an empty one; the end of the text closes
  a line only when characters are pending.
\<close>

fun splitlines_from :: "string \<Rightarrow> string \<Rightarrow> string list" where
  "splitlines_from cur [] = (if cur = [] then [] else [rev cur])"
| "splitlines_from cur [c] =
     (if is_linebreak c then [rev cur] else [rev (c # cur)])"
| "splitlines_from cur (c # d # cs) =
     (if c = CHR 0x0D \<and> d = CHR 0x0A then rev cur # splitlines_from [] cs
      else if is_linebreak c then rev cur # splitlines_from [] (d # cs)
      else splitlines_from (c # cur) (d # cs))"

definition splitlines :: "string \<Rightarrow> string list" where
  "splitlines s = splitlines_from [] s"

text \<open>\<^verbatim>\<open>s.split(sep)\<close> for a one-character separator: never an empty list.\<close>

fun split :: "char \<Rightarrow> string \<Rightarrow> string list" where
  "split sep [] = [[]]"
| "split sep (c # cs) =
     (if c = sep then [] # split sep cs
      else (let r = split sep cs in (c # hd r) # tl r))"

text \<open>\<^verbatim>\<open>s.startswith(q)\<close> and \<^verbatim>\<open>q in s\<close>.\<close>

fun startswith :: "string \<Rightarrow> string \<Rightarrow> bool" where
  "startswith s [] = True"
| "startswith [] (q # qs) = False"
| "startswith (c # cs) (q # qs) = (c = q \<and> startswith cs qs)"

fun py_in :: "string \<Rightarrow> string \<Rightarrow> bool" where
  "py_in q [] = (q = [])"
| "py_in q (c # cs) = (startswith (c # cs) q \<or> py_in q cs)"

subsection \<open>Ranking\<close>

type_synonym ticker = "string \<times> string"

text \<open>\<^verbatim>\<open>get_priority(s, n, query)\<close>, lines 91 to 103.\<close>

definition get_priority :: "string \<Rightarrow> string \<Rightarrow> string \<Rightarrow> nat" where
  "get_priority s n query =
     (let sl = lower s; nl = lower n in
      if sl = query then 0
      else if startswith sl query then 1
      else if py_in query sl then 2
      else if py_in query nl then 3
      else 4)"

subsection \<open>Errors\<close>

text \<open>
  Every exception the module can raise is a value. The first three are the
  \<^verbatim>\<open>ValueError\<close>s that \<^verbatim>\<open>get_stock_list\<close> raises itself; \<open>IndexError\<close> is a list
  subscript out of range and \<open>NotInList\<close> the \<^verbatim>\<open>ValueError\<close> of \<^verbatim>\<open>list.index\<close>.
\<close>

datatype error = FetchFailed | EmptyFile | NoTickers | IndexError | NotInList

fun list_index :: "'a list \<Rightarrow> 'a \<Rightarrow> error + nat" where
  "list_index [] x = Inl NotInList"
| "list_index (y # ys) x =
     (if y = x then Inr 0
      else (case list_index ys x of Inl e \<Rightarrow> Inl e | Inr i \<Rightarrow> Inr (Suc i)))"

definition py_get :: "'a list \<Rightarrow> nat \<Rightarrow> error + 'a" where
  "py_get xs i = (if i < length xs then Inr (xs ! i) else Inl IndexError)"

subsection \<open>The parser\<close>

text \<open>
  Lines 51 to 60: the three columns are looked up by name inside one \<^verbatim>\<open>try\<close>. A
  \<^verbatim>\<open>ValueError\<close> of either \<^verbatim>\<open>index\<close> call sets all three indices to the fixed ones; the
  test-issue column is guarded by \<^verbatim>\<open>in\<close> and is \<open>None\<close> when the header has none.
\<close>

definition header_indices :: "string list \<Rightarrow> nat \<times> nat \<times> nat option" where
  "header_indices parts =
     (case list_index parts ''Symbol'' of
        Inl e \<Rightarrow> (1, 2, Some 7)
      | Inr idx_symbol \<Rightarrow>
          (case list_index parts ''Security Name'' of
             Inl e \<Rightarrow> (1, 2, Some 7)
           | Inr idx_name \<Rightarrow>
               (if ''Test Issue'' \<in> set parts
                then (case list_index parts ''Test Issue'' of
                        Inl e \<Rightarrow> (1, 2, Some 7)
                      | Inr idx_test \<Rightarrow> (idx_symbol, idx_name, Some idx_test))
                else (idx_symbol, idx_name, None))))"

text \<open>Line 66, with the subscript as Python evaluates it, behind its two guards.\<close>

definition is_test_issue :: "nat option \<Rightarrow> string list \<Rightarrow> error + bool" where
  "is_test_issue idx_test cols =
     (case idx_test of
        None \<Rightarrow> Inr False
      | Some t \<Rightarrow>
          (if t < length cols
           then (case py_get cols t of
                   Inl e \<Rightarrow> Inl e
                 | Inr c \<Rightarrow> Inr (upper (strip c) = ''Y''))
           else Inr False))"

text \<open>
  Lines 63 to 71, the body of the loop for one line: \<open>Inr None\<close> is \<^verbatim>\<open>continue\<close> (or
  the \<^verbatim>\<open>if symbol\<close> that does not append), \<open>Inr (Some r)\<close> appends \<open>r\<close>.
\<close>

definition parse_row :: "nat \<Rightarrow> nat \<Rightarrow> nat option \<Rightarrow> string \<Rightarrow> error + ticker option" where
  "parse_row idx_symbol idx_name idx_test line =
     (let cols = split CHR ''|'' line in
      if length cols \<le> max idx_symbol idx_name then Inr None
      else
        (case is_test_issue idx_test cols of
           Inl e \<Rightarrow> Inl e
         | Inr t \<Rightarrow>
             (if t then Inr None
              else
                (case py_get cols idx_symbol of
                   Inl e \<Rightarrow> Inl e
                 | Inr cs \<Rightarrow>
                     (case py_get cols idx_name of
                        Inl e \<Rightarrow> Inl e
                      | Inr cn \<Rightarrow>
                          (let symbol = upper (strip cs); name = strip cn in
                           if symbol \<noteq> [] then Inr (Some (symbol, name))
                           else Inr None))))))"

fun rows_loop ::
  "nat \<Rightarrow> nat \<Rightarrow> nat option \<Rightarrow> string list \<Rightarrow> ticker list \<Rightarrow> error + ticker list" where
  "rows_loop idx_symbol idx_name idx_test [] out = Inr out"
| "rows_loop idx_symbol idx_name idx_test (line # lines) out =
     (case parse_row idx_symbol idx_name idx_test line of
        Inl e \<Rightarrow> Inl e
      | Inr None \<Rightarrow> rows_loop idx_symbol idx_name idx_test lines out
      | Inr (Some r) \<Rightarrow> rows_loop idx_symbol idx_name idx_test lines (out @ [r]))"

text \<open>
  Lines 51 to 73: header, loop and the sort. \<^verbatim>\<open>list.sort\<close> is stable and the key
  \<^verbatim>\<open>(x[0],)\<close> compares as the symbol does; \<^const>\<open>sort_key\<close> is the stable sort.
\<close>

definition parse_records :: "string \<Rightarrow> string list \<Rightarrow> error + ticker list" where
  "parse_records header rows =
     (let parts = split CHR ''|'' header;
          (idx_symbol, idx_name, idx_test) = header_indices parts
      in case rows_loop idx_symbol idx_name idx_test rows [] of
           Inl e \<Rightarrow> Inl e
         | Inr out \<Rightarrow> Inr (sort_key fst out))"

text \<open>Lines 46 to 76: what \<^verbatim>\<open>get_stock_list\<close> does with the fetched text.\<close>

definition parse_symbol_file :: "string \<Rightarrow> error + ticker list" where
  "parse_symbol_file raw =
     (case splitlines (strip raw) of
        [] \<Rightarrow> Inl EmptyFile
      | header # rows \<Rightarrow>
          (case parse_records header rows of
             Inl e \<Rightarrow> Inl e
           | Inr out \<Rightarrow> if out = [] then Inl NoTickers else Inr out))"

subsection \<open>The cache file, the network and \<^verbatim>\<open>get_stock_list\<close>\<close>

text \<open>
  What \<^verbatim>\<open>get_stock_list\<close> reads and changes outside itself is a record. The cache file,
  when it exists, has the date of its last modification and a payload: the list that
  \<^verbatim>\<open>pickle.load\<close> returns, or \<open>None\<close> when loading raises. \<open>net\<close> is the decoded
  text the request would return, \<open>None\<close> when it raises. \<open>saving\<close> says how the write
  would end: well, with \<^verbatim>\<open>open\<close> raising (the file is left as it is) or with
  \<^verbatim>\<open>pickle.dump\<close> raising (the file has been truncated and holds no loadable list).
  \<open>trace\<close> records each access to the cache file and each request, in order.
\<close>

record cache_file =
  mtime_date :: nat
  payload :: "ticker list option"

datatype write_outcome = WriteOk | OpenFails | DumpFails

datatype event = CacheStat | CacheRead | CacheWrite | Fetch

record env =
  cache :: "cache_file option"
  today :: nat
  net :: "string option"
  saving :: write_outcome
  trace :: "event list"

definition record_event :: "event \<Rightarrow> env \<Rightarrow> env" where
  "record_event ev e = e\<lparr>trace := trace e @ [ev]\<rparr>"

text \<open>Lines 80 to 86.\<close>

definition save_cache :: "ticker list \<Rightarrow> env \<Rightarrow> env" where
  "save_cache out e =
     (let e1 = record_event CacheWrite e in
      case saving e1 of
        WriteOk \<Rightarrow> e1\<lparr>cache := Some \<lparr>mtime_date = today e1, payload = Some out\<rparr>\<rparr>
      | OpenFails \<Rightarrow> e1
      | DumpFails \<Rightarrow> e1\<lparr>cache := Some \<lparr>mtime_date = today e1, payload = None\<rparr>\<rparr>)"

text \<open>Lines 36 to 88: the fetch, the parse and the save.\<close>

definition fetch_and_parse :: "bool \<Rightarrow> env \<Rightarrow> (error + ticker list) \<times> env" where
  "fetch_and_parse use_cache e =
     (let e1 = record_event Fetch e in
      case net e1 of
        None \<Rightarrow> (Inl FetchFailed, e1)
      | Some raw \<Rightarrow>
          (case parse_symbol_file raw of
             Inl err \<Rightarrow> (Inl err, e1)
           | Inr out \<Rightarrow>
               (if use_cache then (Inr out, save_cache out e1) else (Inr out, e1))))"

text \<open>
  Lines 16 to 88. \<^verbatim>\<open>use_cache and os.path.exists(...)\<close> does not look at the file when
  \<open>use_cache\<close> is false.
\<close>

definition get_stock_list :: "bool \<Rightarrow> env \<Rightarrow> (error + ticker list) \<times> env" where
  "get_stock_list use_cache e =
     (if use_cache then
        (let e1 = record_event CacheStat e in
         case cache e1 of
           None \<Rightarrow> fetch_and_parse use_cache e1
         | Some cf \<Rightarrow>
             (if mtime_date cf = today e1 then
                (let e2 = record_event CacheRead e1 in
                 case payload cf of
                   Some stock_list \<Rightarrow> (Inr stock_list, e2)
                 | None \<Rightarrow> fetch_and_parse use_cache e2)
              else fetch_and_parse use_cache e1))
      else fetch_and_parse use_cache e)"

text \<open>
  The states the program can be in: it starts without a cache file, every run of
  \<^verbatim>\<open>get_stock_list\<close> leads to a next state, and between runs the date, the network and
  the file system's willingness to write change freely. Nothing else writes the cache file.
\<close>

inductive reachable :: "env \<Rightarrow> bool" where
  start: "cache e = None \<Longrightarrow> reachable e"
| run: "reachable e \<Longrightarrow> reachable (snd (get_stock_list use_cache e))"
| world: "reachable e \<Longrightarrow> reachable (e\<lparr>today := d, net := n, saving := w\<rparr>)"

text \<open>
  Lines 222 to 233 and line 109: \<^verbatim>\<open>--no-cache\<close> makes \<^verbatim>\<open>stock_search\<close> call
  \<^verbatim>\<open>get_stock_list\<close> with \<open>use_cache\<close> false. This is the run up to the moment the
  window opens.
\<close>

definition run_main :: "bool \<Rightarrow> env \<Rightarrow> (error + ticker list) \<times> env" where
  "run_main no_cache e = get_stock_list (\<not> no_cache) e"

text \<open>
  A cache hit: the file exists, is of today and loads. A list is well formed when it is
  not empty and no symbol in it is empty; a state is well formed when the cache file, if
  it loads, holds such a list.
\<close>

definition cache_hit :: "env \<Rightarrow> bool" where
  "cache_hit e =
     (case cache e of
        None \<Rightarrow> False
      | Some cf \<Rightarrow> mtime_date cf = today e \<and> payload cf \<noteq> None)"

definition well_formed :: "ticker list \<Rightarrow> bool" where
  "well_formed stock_list = (stock_list \<noteq> [] \<and> list_all (\<lambda>r. fst r \<noteq> []) stock_list)"

definition cache_ok :: "env \<Rightarrow> bool" where
  "cache_ok e =
     (case cache e of
        None \<Rightarrow> True
      | Some cf \<Rightarrow> (case payload cf of None \<Rightarrow> True | Some l \<Rightarrow> well_formed l))"

subsection \<open>The filter of the search box\<close>

text \<open>Lines 153 and 157: the text of one entry of the list box.\<close>

definition label :: "ticker \<Rightarrow> string" where
  "label r = (case r of (s, n) \<Rightarrow> if n \<noteq> [] then s @ '' - '' @ n else s)"

text \<open>
  Lines 143 to 158 of \<^verbatim>\<open>update\<close>: the records the two \<^verbatim>\<open>for\<close> statements go through, for
  the lowercased query. \<^verbatim>\<open>sorted\<close> is stable and compares the key pairs
  lexicographically.
\<close>

definition displayed_records :: "ticker list \<Rightarrow> string \<Rightarrow> ticker list" where
  "displayed_records stock_list query =
     (if query \<noteq> [] then
        (let matches =
               filter (\<lambda>(s, n). py_in query (lower s) \<or> py_in query (lower n)) stock_list;
             sorted_matches =
               sort_key (\<lambda>x. (get_priority (fst x) (snd x) query, lower (fst x))) matches
         in take 100 sorted_matches)
      else take 100 stock_list)"

text \<open>
  \<^verbatim>\<open>update()\<close>, lines 140 to 158: the list box is emptied and filled again. The
  result is the content of the list box.
\<close>

definition update :: "ticker list \<Rightarrow> string \<Rightarrow> string list \<Rightarrow> string list" where
  "update stock_list entry_var my_list =
     (let emptied = drop (length my_list) my_list;
          query = lower entry_var
      in emptied @ map label (displayed_records stock_list query))"

subsection \<open>The words of the specification\<close>

text \<open>
  The notions the specification speaks in, stated on their own and not taken from the
  code: the first position of an element, the record a row stands for, the rows the
  parser keeps, the rows that are not test issues, a malformed row, a record that
  matches a query, and the two sort keys (with the symbol as it is, and lowercased).
\<close>

definition first_position :: "'a \<Rightarrow> 'a list \<Rightarrow> nat" where
  "first_position x xs = length (takeWhile (\<lambda>y. y \<noteq> x) xs)"

definition row_is_test_issue :: "nat option \<Rightarrow> string \<Rightarrow> bool" where
  "row_is_test_issue idx_test line =
     (let cols = split CHR ''|'' line in
      case idx_test of
        None \<Rightarrow> False
      | Some t \<Rightarrow> t < length cols \<and> upper (strip (cols ! t)) = ''Y'')"

definition non_test_issue_rows :: "nat option \<Rightarrow> string list \<Rightarrow> string list" where
  "non_test_issue_rows idx_test rows = filter (\<lambda>l. \<not> row_is_test_issue idx_test l) rows"

definition row_ticker :: "nat \<Rightarrow> nat \<Rightarrow> string \<Rightarrow> ticker" where
  "row_ticker idx_symbol idx_name line =
     (let cols = split CHR ''|'' line in
      (upper (strip (cols ! idx_symbol)), strip (cols ! idx_name)))"

definition malformed_row :: "nat \<Rightarrow> nat \<Rightarrow> string \<Rightarrow> bool" where
  "malformed_row idx_symbol idx_name line =
     (let cols = split CHR ''|'' line in
      length cols \<le> max idx_symbol idx_name \<or> strip (cols ! idx_symbol) = [])"

definition row_kept :: "nat \<Rightarrow> nat \<Rightarrow> nat option \<Rightarrow> string \<Rightarrow> bool" where
  "row_kept idx_symbol idx_name idx_test line =
     (\<not> malformed_row idx_symbol idx_name line \<and> \<not> row_is_test_issue idx_test line)"

definition matches_query :: "string \<Rightarrow> ticker \<Rightarrow> bool" where
  "matches_query query r =
     (sublist query (lower (fst r)) \<or> sublist query (lower (snd r)))"

definition rank_symbol_key :: "string \<Rightarrow> ticker \<Rightarrow> nat \<times> string" where
  "rank_symbol_key query r = (get_priority (fst r) (snd r) query, fst r)"

definition rank_lower_symbol_key :: "string \<Rightarrow> ticker \<Rightarrow> nat \<times> string" where
  "rank_lower_symbol_key query r = (get_priority (fst r) (snd r) query, lower (fst r))"

subsection \<open>Facts about the string operations\<close>

lemma startswith_prefix: "startswith s q = prefix q s"
  by (induction s q rule: startswith.induct) auto

lemma py_in_sublist: "py_in q s = sublist q s"
  by (induction s) (auto simp: startswith_prefix sublist_Cons_right)

subsection \<open>Facts about the parser\<close>

lemma list_index_first_position:
  "list_index xs x = (if x \<in> set xs then Inr (first_position x xs) else Inl NotInList)"
  by (induction xs) (auto simp: first_position_def)

lemma upper_Nil_iff: "upper s = [] \<longleftrightarrow> s = []"
  by (simp add: upper_def)

text \<open>No subscript of the loop body is out of range: the body never raises.\<close>

lemma parse_row_eq:
  "parse_row idx_symbol idx_name idx_test line =
     Inr (if row_kept idx_symbol idx_name idx_test line
          then Some (row_ticker idx_symbol idx_name line) else None)"
  by (auto simp: parse_row_def is_test_issue_def py_get_def row_kept_def malformed_row_def
      row_is_test_issue_def row_ticker_def upper_Nil_iff Let_def split: option.splits)

lemma rows_loop_eq:
  "rows_loop idx_symbol idx_name idx_test lines out =
     Inr (out @ map (row_ticker idx_symbol idx_name)
                  (filter (row_kept idx_symbol idx_name idx_test) lines))"
  by (induction lines arbitrary: out) (simp_all add: parse_row_eq)

lemma parse_records_eq:
  "header_indices (split CHR ''|'' header) = (idx_symbol, idx_name, idx_test) \<Longrightarrow>
   parse_records header rows =
     Inr (sort_key fst (map (row_ticker idx_symbol idx_name)
                          (filter (row_kept idx_symbol idx_name idx_test) rows)))"
  by (simp add: parse_records_def rows_loop_eq)

lemma rows_loop_skip:
  "\<not> row_kept idx_symbol idx_name idx_test line \<Longrightarrow>
   rows_loop idx_symbol idx_name idx_test (pre @ line # post) out =
   rows_loop idx_symbol idx_name idx_test (pre @ post) out"
  by (simp add: rows_loop_eq)

subsection \<open>Facts about the filter\<close>

lemma sorted_map_fst_key:
  fixes xs :: "'a list" and k :: "'a \<Rightarrow> nat \<times> string"
  shows "sorted (map k xs) \<Longrightarrow> sorted (map (\<lambda>x. fst (k x)) xs)"
  by (induction xs) (auto simp: less_eq_prod_def)

lemma displayed_records_sorted:
  "query \<noteq> [] \<Longrightarrow>
   sorted (map (rank_lower_symbol_key query) (displayed_records stock_list query))"
  unfolding displayed_records_def rank_lower_symbol_key_def
  by (simp add: Let_def take_map [symmetric] sorted_wrt_take del: take_map)

subsection \<open>Facts about the cache\<close>

lemma record_event_simps [simp]:
  "cache (record_event ev e) = cache e"
  "today (record_event ev e) = today e"
  "net (record_event ev e) = net e"
  "saving (record_event ev e) = saving e"
  "trace (record_event ev e) = trace e @ [ev]"
  by (simp_all add: record_event_def)

lemma row_kept_symbol:
  "row_kept idx_symbol idx_name idx_test line \<Longrightarrow>
   fst (row_ticker idx_symbol idx_name line) \<noteq> []"
  by (auto simp: row_kept_def malformed_row_def row_ticker_def upper_Nil_iff Let_def)

lemma parse_symbol_file_well_formed:
  assumes "parse_symbol_file raw = Inr out"
  shows "well_formed out"
proof -
  from assms obtain header rows where l: "splitlines (strip raw) = header # rows"
    by (auto simp: parse_symbol_file_def split: list.splits)
  obtain i j t where h: "header_indices (split CHR ''|'' header) = (i, j, t)"
    by (cases "header_indices (split CHR ''|'' header)") auto
  let ?out = "sort_key fst (map (row_ticker i j) (filter (row_kept i j t) rows))"
  from assms l h have o: "out = ?out" and ne: "out \<noteq> []"
    by (auto simp: parse_symbol_file_def parse_records_eq split: if_splits)
  have "list_all (\<lambda>r. fst r \<noteq> []) ?out"
    by (auto simp: list_all_iff row_kept_symbol)
  with o ne show ?thesis
    by (simp add: well_formed_def)
qed

lemma fetch_and_parse_cache_ok:
  "cache_ok e \<Longrightarrow> cache_ok (snd (fetch_and_parse use_cache e))"
  by (auto simp: fetch_and_parse_def Let_def cache_ok_def save_cache_def
      dest: parse_symbol_file_well_formed
      split: option.splits sum.splits write_outcome.splits)

lemma fetch_and_parse_well_formed:
  "fetch_and_parse use_cache e = (Inr l, e') \<Longrightarrow> well_formed l"
  by (auto simp: fetch_and_parse_def Let_def dest: parse_symbol_file_well_formed
      split: option.splits sum.splits if_splits)

lemma cache_ok_record_event [simp]: "cache_ok (record_event ev e) = cache_ok e"
  by (simp add: cache_ok_def)

lemma get_stock_list_cache_ok:
  "cache_ok e \<Longrightarrow> cache_ok (snd (get_stock_list use_cache e))"
  by (auto simp: get_stock_list_def Let_def fetch_and_parse_cache_ok
      split: option.splits)

lemma get_stock_list_well_formed:
  "cache_ok e \<Longrightarrow> get_stock_list use_cache e = (Inr l, e') \<Longrightarrow> well_formed l"
  by (auto simp: get_stock_list_def Let_def cache_ok_def
      dest: fetch_and_parse_well_formed
      split: option.splits if_splits)

lemma reachable_cache_ok: "reachable e \<Longrightarrow> cache_ok e"
proof (induction rule: reachable.induct)
  case (start e)
  then show ?case by (simp add: cache_ok_def)
next
  case (run e use_cache)
  then show ?case by (simp add: get_stock_list_cache_ok)
next
  case (world e d n w)
  then show ?case by (simp add: cache_ok_def)
qed

lemma get_stock_list_fetched_well_formed:
  "\<not> (use_cache \<and> cache_hit e) \<Longrightarrow> get_stock_list use_cache e = (Inr l, e') \<Longrightarrow>
   well_formed l"
  by (auto simp: get_stock_list_def Let_def cache_hit_def
      dest: fetch_and_parse_well_formed
      split: option.splits if_splits)

lemma returned_well_formed:
  assumes "reachable e \<or> \<not> (use_cache \<and> cache_hit e)"
    and "get_stock_list use_cache e = (Inr l, e')"
  shows "well_formed l"
  using assms reachable_cache_ok get_stock_list_well_formed get_stock_list_fetched_well_formed
  by blast

section \<open>The claims\<close>

subsection \<open>C3: the priority rank\<close>

text \<open>
  C3. For every record \<open>(s, n)\<close> and every query, \<^verbatim>\<open>get_priority\<close> is 0 when the
  lowercased symbol equals the query, else 1 when the lowercased symbol starts with the
  query, else 2 when the query is a substring of the lowercased symbol, else 3 when it is
  a substring of the lowercased name, else 4. So a record whose symbol is the query has a
  smaller rank than a record whose symbol only starts with it, which has a smaller rank
  than a record that matches in the name alone; and the records the list box shows for a
  non-empty query come in the order of their ranks.
\<close>

theorem get_priority_ranks:
  "get_priority s n query =
     (if lower s = query then 0
      else if prefix query (lower s) then 1
      else if sublist query (lower s) then 2
      else if sublist query (lower n) then 3
      else 4)
   \<and> (lower s1 = query \<and> prefix query (lower s2) \<and> lower s2 \<noteq> query \<and>
       \<not> sublist query (lower s3) \<and> sublist query (lower n3) \<longrightarrow>
       get_priority s1 n1 query < get_priority s2 n2 query \<and>
       get_priority s2 n2 query < get_priority s3 n3 query)
   \<and> (query \<noteq> [] \<longrightarrow>
       sorted (map (\<lambda>r. get_priority (fst r) (snd r) query)
                (displayed_records stock_list query)))"
proof -
  have rank: "get_priority s n q =
     (if lower s = q then 0
      else if prefix q (lower s) then 1
      else if sublist q (lower s) then 2
      else if sublist q (lower n) then 3
      else 4)" for s n q
    by (simp add: get_priority_def startswith_prefix py_in_sublist Let_def)
  have order: "get_priority s1 n1 query < get_priority s2 n2 query \<and>
       get_priority s2 n2 query < get_priority s3 n3 query"
    if "lower s1 = query \<and> prefix query (lower s2) \<and> lower s2 \<noteq> query \<and>
       \<not> sublist query (lower s3) \<and> sublist query (lower n3)"
    using that by (auto simp: rank)
  have shown: "sorted (map (\<lambda>r. get_priority (fst r) (snd r) query)
                (displayed_records stock_list query))" if "query \<noteq> []"
    using sorted_map_fst_key [OF displayed_records_sorted [OF that, of stock_list]]
    by (simp add: rank_lower_symbol_key_def)
  from rank order shown show ?thesis by blast
qed

text \<open>The query \<^verbatim>\<open>AAPL\<close>, lowercased by \<^verbatim>\<open>update\<close>, on three records.\<close>

theorem get_priority_ranks_witness:
  "get_priority ''AAPL'' ''Apple Inc.'' ''aapl'' = 0 \<and>
   get_priority ''AAPLW'' ''Apple warrants'' ''aapl'' = 1 \<and>
   get_priority ''ZZZ'' ''Aapl Holdings'' ''aapl'' = 3 \<and>
   sorted (map (\<lambda>r. get_priority (fst r) (snd r) ''aapl'')
     (displayed_records
        [(''AAPL'', ''Apple Inc.''), (''AAPLW'', ''Apple warrants''), (''ZZZ'', ''Aapl Holdings'')]
        ''aapl''))"
proof -
  have h: "lower ''AAPL'' = ''aapl'' \<and> prefix ''aapl'' (lower ''AAPLW'') \<and>
      lower ''AAPLW'' \<noteq> ''aapl'' \<and> \<not> sublist ''aapl'' (lower ''ZZZ'') \<and>
      sublist ''aapl'' (lower ''Aapl Holdings'')"
    by code_simp
  have q: "''aapl'' \<noteq> []" by simp
  have v: "get_priority ''AAPL'' ''Apple Inc.'' ''aapl'' = 0 \<and>
   get_priority ''AAPLW'' ''Apple warrants'' ''aapl'' = 1 \<and>
   get_priority ''ZZZ'' ''Aapl Holdings'' ''aapl'' = 3" by code_simp
  from get_priority_ranks [of "''AAPL''" "''Apple Inc.''" "''aapl''" "''AAPL''" "''AAPLW''"
      "''ZZZ''" "''Aapl Holdings''" "''Apple Inc.''" "''Apple warrants''"
      "[(''AAPL'', ''Apple Inc.''), (''AAPLW'', ''Apple warrants''), (''ZZZ'', ''Aapl Holdings'')]"]
    h q v
  show ?thesis by blast
qed

subsection \<open>C7: the columns of the header\<close>

text \<open>
  C7, as the code has it. When the header names both \<^verbatim>\<open>Symbol\<close> and
  \<^verbatim>\<open>Security Name\<close>, the parser takes their first positions, and for the test-issue
  column the first position of \<^verbatim>\<open>Test Issue\<close> when the header names it and no column
  at all when it does not. When \<^verbatim>\<open>Symbol\<close> or \<^verbatim>\<open>Security Name\<close> is missing, all three
  indices are the fixed ones: 1, 2 and 7.
\<close>

theorem header_indices_fallback:
  "header_indices parts =
     (if ''Symbol'' \<in> set parts \<and> ''Security Name'' \<in> set parts
      then (first_position ''Symbol'' parts, first_position ''Security Name'' parts,
            if ''Test Issue'' \<in> set parts
            then Some (first_position ''Test Issue'' parts) else None)
      else (1, 2, Some 7))"
  by (simp add: header_indices_def list_index_first_position)

theorem header_indices_fallback_witness:
  "header_indices (split CHR ''|'' ''Ticker|Company|Test Issue'') = (1, 2, Some 7) \<and>
   header_indices (split CHR ''|'' ''Symbol|Company|Test Issue'') = (1, 2, Some 7) \<and>
   header_indices (split CHR ''|'' ''Test Issue|Security Name|Symbol'') = (2, 1, Some 0)"
proof -
  have a: "split CHR ''|'' ''Ticker|Company|Test Issue'' = [''Ticker'', ''Company'', ''Test Issue'']"
    and b: "split CHR ''|'' ''Symbol|Company|Test Issue'' = [''Symbol'', ''Company'', ''Test Issue'']"
    and c: "split CHR ''|'' ''Test Issue|Security Name|Symbol'' = [''Test Issue'', ''Security Name'', ''Symbol'']"
    by code_simp+
  show ?thesis
    unfolding a b c
    using header_indices_fallback [of "[''Ticker'', ''Company'', ''Test Issue'']"]
      header_indices_fallback [of "[''Symbol'', ''Company'', ''Test Issue'']"]
      header_indices_fallback [of "[''Test Issue'', ''Security Name'', ''Symbol'']"]
    by (simp add: first_position_def)
qed

text \<open>
  The claim as it is written fails on a header that names the symbol and the name but has
  no \<^verbatim>\<open>Test Issue\<close> column: locating that column fails, and no index is the fixed one.
\<close>

theorem header_without_test_issue_counterexample:
  "''Test Issue'' \<notin> set (split CHR ''|'' ''Symbol|Security Name'') \<and>
   header_indices (split CHR ''|'' ''Symbol|Security Name'') = (0, 1, None)"
  by code_simp

subsection \<open>C10: malformed rows\<close>

text \<open>
  C10. The loop over the data rows never raises, whatever the rows are. A row with too few
  columns for the symbol and the name, or with a symbol that is empty once stripped,
  yields no record, and the loop gives the same result with the row as without it. The
  parser as a whole never ends in an \<open>IndexError\<close>.
\<close>

theorem malformed_rows_skipped:
  "(\<exists>res. rows_loop idx_symbol idx_name idx_test lines out = Inr res)
   \<and> (malformed_row idx_symbol idx_name line \<longrightarrow>
        parse_row idx_symbol idx_name idx_test line = Inr None \<and>
        rows_loop idx_symbol idx_name idx_test (pre @ line # post) out =
          rows_loop idx_symbol idx_name idx_test (pre @ post) out)
   \<and> parse_symbol_file raw \<noteq> Inl IndexError"
proof -
  have total: "\<exists>res. rows_loop idx_symbol idx_name idx_test lines out = Inr res"
    by (simp add: rows_loop_eq)
  have skip: "parse_row idx_symbol idx_name idx_test line = Inr None \<and>
        rows_loop idx_symbol idx_name idx_test (pre @ line # post) out =
          rows_loop idx_symbol idx_name idx_test (pre @ post) out"
    if "malformed_row idx_symbol idx_name line"
  proof -
    from that have "\<not> row_kept idx_symbol idx_name idx_test line"
      by (simp add: row_kept_def)
    then show ?thesis
      by (simp add: parse_row_eq rows_loop_skip)
  qed
  have whole: "parse_symbol_file raw \<noteq> Inl IndexError"
    by (auto simp: parse_symbol_file_def parse_records_def rows_loop_eq
        split: list.splits prod.splits)
  from total skip whole show ?thesis by blast
qed

text \<open>A row of one column and a row with a blank symbol, between two good rows.\<close>

theorem malformed_rows_skipped_witness:
  "malformed_row 1 2 ''Y'' \<and> malformed_row 1 2 ''Y|  |Blank symbol|N'' \<and>
   parse_row 1 2 (Some 3) ''Y'' = Inr None \<and>
   parse_row 1 2 (Some 3) ''Y|  |Blank symbol|N'' = Inr None \<and>
   rows_loop 1 2 (Some 3) [''Y|A|Alpha|N'', ''Y'', ''Y|B|Beta|N''] [] =
     rows_loop 1 2 (Some 3) [''Y|A|Alpha|N'', ''Y|B|Beta|N''] [] \<and>
   rows_loop 1 2 (Some 3) [''Y|A|Alpha|N'', ''Y|  |Blank symbol|N'', ''Y|B|Beta|N''] [] =
     Inr [(''A'', ''Alpha''), (''B'', ''Beta'')]"
proof -
  have m1: "malformed_row 1 2 ''Y''" and m2: "malformed_row 1 2 ''Y|  |Blank symbol|N''"
    by code_simp+
  have r: "rows_loop 1 2 (Some 3) [''Y|A|Alpha|N'', ''Y|B|Beta|N''] [] =
     Inr [(''A'', ''Alpha''), (''B'', ''Beta'')]"
    by code_simp
  from malformed_rows_skipped [of 1 2 "Some 3" "[]" "[]" "''Y''" "[''Y|A|Alpha|N'']"
      "[''Y|B|Beta|N'']" "[]"]
    malformed_rows_skipped [of 1 2 "Some 3" "[]" "[]" "''Y|  |Blank symbol|N''" "[''Y|A|Alpha|N'']"
      "[''Y|B|Beta|N'']" "[]"]
    m1 m2 r
  show ?thesis by simp
qed

subsection \<open>C2: what the parser extracts\<close>

text \<open>
  C2, as the code has it. For a source whose first line is the header and whose other
  lines are the data rows, the parser's records are exactly those of the rows that have a
  column for the symbol and for the name, a symbol that is not empty once stripped, and no
  \<^verbatim>\<open>Y\<close> in the test-issue column: one record per such row, the stripped symbol in
  upper case with the stripped name, sorted by symbol ascending, rows of equal symbol in
  the order of the file. \<^verbatim>\<open>get_stock_list\<close> returns that list, or raises when it is
  empty.
\<close>

theorem parser_output:
  assumes "splitlines (strip raw) = header # rows"
    and "header_indices (split CHR ''|'' header) = (idx_symbol, idx_name, idx_test)"
  shows "\<exists>out. parse_records header rows = Inr out
     \<and> parse_symbol_file raw = (if out = [] then Inl NoTickers else Inr out)
     \<and> mset out = image_mset (row_ticker idx_symbol idx_name)
                    (filter_mset (row_kept idx_symbol idx_name idx_test) (mset rows))
     \<and> sorted (map fst out)
     \<and> out = sort_key fst (map (row_ticker idx_symbol idx_name)
                             (filter (row_kept idx_symbol idx_name idx_test) rows))"
  using assms by (simp add: parse_symbol_file_def parse_records_eq)

text \<open>The header of the symbol directory, two rows, a test issue and the trailer line.\<close>

theorem parser_output_witness:
  "parse_symbol_file
     (''Nasdaq Traded|Symbol|Security Name|Listing Exchange|Market Category|ETF|Round Lot Size|Test Issue''
      @ [CHR 0x0A] @ ''Y|msft|Microsoft Corp |Q|Q|N|100|N''
      @ [CHR 0x0A] @ ''Y|ZTEST|Test Co|Q|Q|N|100|Y''
      @ [CHR 0x0A] @ ''Y|AAPL| Apple Inc.|Q|Q|N|100|N''
      @ [CHR 0x0A] @ ''File Creation Time: 1104202621:32|||||||'' @ [CHR 0x0A])
   = Inr [(''AAPL'', ''Apple Inc.''), (''MSFT'', ''Microsoft Corp'')]"
proof -
  let ?header = "''Nasdaq Traded|Symbol|Security Name|Listing Exchange|Market Category|ETF|Round Lot Size|Test Issue''"
  let ?rows = "[''Y|msft|Microsoft Corp |Q|Q|N|100|N'', ''Y|ZTEST|Test Co|Q|Q|N|100|Y'',
      ''Y|AAPL| Apple Inc.|Q|Q|N|100|N'', ''File Creation Time: 1104202621:32|||||||'']"
  let ?raw = "?header
      @ [CHR 0x0A] @ ''Y|msft|Microsoft Corp |Q|Q|N|100|N''
      @ [CHR 0x0A] @ ''Y|ZTEST|Test Co|Q|Q|N|100|Y''
      @ [CHR 0x0A] @ ''Y|AAPL| Apple Inc.|Q|Q|N|100|N''
      @ [CHR 0x0A] @ ''File Creation Time: 1104202621:32|||||||'' @ [CHR 0x0A]"
  have a: "splitlines (strip ?raw) = ?header # ?rows"
    by code_simp
  have b: "header_indices (split CHR ''|'' ?header) = (1, 2, Some 7)"
    by code_simp
  have c: "sort_key fst (map (row_ticker 1 2) (filter (row_kept 1 2 (Some 7)) ?rows))
      = [(''AAPL'', ''Apple Inc.''), (''MSFT'', ''Microsoft Corp'')]"
    by code_simp
  from parser_output [OF a b] c show ?thesis
    by auto
qed

text \<open>
  The claim as it is written fails on the trailer line of the symbol directory: it is a
  row, it is not a test issue, and the parser extracts nothing from it. Here two rows are
  not test issues and the output has one record.
\<close>

theorem trailer_row_counterexample:
  "non_test_issue_rows (Some 7)
     [''Y|AAPL|Apple Inc.|Q|Q|N|100|N'', ''File Creation Time: 1104202621:32|||||||'']
   = [''Y|AAPL|Apple Inc.|Q|Q|N|100|N'', ''File Creation Time: 1104202621:32|||||||'']
   \<and> parse_symbol_file
     (''Nasdaq Traded|Symbol|Security Name|Listing Exchange|Market Category|ETF|Round Lot Size|Test Issue''
      @ [CHR 0x0A] @ ''Y|AAPL|Apple Inc.|Q|Q|N|100|N''
      @ [CHR 0x0A] @ ''File Creation Time: 1104202621:32|||||||'')
   = Inr [(''AAPL'', ''Apple Inc.'')]"
  by code_simp

subsection \<open>C1: the list shown for a query\<close>

text \<open>
  C1, as the code has it. For every non-empty text in the search box, with \<open>q\<close> its
  lowercased form, the list box shows the labels of the first 100 entries of a list
  \<open>L\<close>: \<open>L\<close> holds exactly the records whose lowercased symbol or lowercased name
  contains \<open>q\<close>, sorted ascending by the pair of the priority rank and the lowercased
  symbol, records of equal pair in the order of the full list. So at most 100 entries
  are shown, whatever the number of matches.
\<close>

theorem displayed_for_query:
  assumes "entry_var \<noteq> []"
  shows "\<exists>L. mset L = filter_mset (matches_query (lower entry_var)) (mset stock_list)
     \<and> sorted (map (rank_lower_symbol_key (lower entry_var)) L)
     \<and> L = sort_key (rank_lower_symbol_key (lower entry_var))
              (filter (matches_query (lower entry_var)) stock_list)
     \<and> displayed_records stock_list (lower entry_var) = take 100 L
     \<and> update stock_list entry_var my_list = map label (take 100 L)
     \<and> length (update stock_list entry_var my_list) = min 100 (length L)"
proof -
  from assms have q: "lower entry_var \<noteq> []"
    by (simp add: lower_def)
  have f: "(\<lambda>(s, n). py_in query (lower s) \<or> py_in query (lower n)) = matches_query query"
    for query
    by (auto simp: matches_query_def py_in_sublist fun_eq_iff)
  have k: "(\<lambda>x. (get_priority (fst x) (snd x) query, lower (fst x))) = rank_lower_symbol_key query"
    for query
    by (simp add: rank_lower_symbol_key_def fun_eq_iff)
  have d: "displayed_records stock_list (lower entry_var) =
      take 100 (sort_key (rank_lower_symbol_key (lower entry_var))
              (filter (matches_query (lower entry_var)) stock_list))"
    using q by (simp add: displayed_records_def f k)
  then show ?thesis
    by (simp add: update_def)
qed

theorem displayed_for_query_witness:
  "update [(''ZZZ'', ''Aapl Holdings''), (''AAPLW'', []), (''MSFT'', ''Microsoft''), (''AAPL'', ''Apple Inc.'')]
     ''AAPL'' [''old entry'']
   = [''AAPL - Apple Inc.'', ''AAPLW'', ''ZZZ - Aapl Holdings'']"
proof -
  have a: "''AAPL'' \<noteq> []" by simp
  have c: "map label (take 100 (sort_key (rank_lower_symbol_key (lower ''AAPL''))
      (filter (matches_query (lower ''AAPL''))
         [(''ZZZ'', ''Aapl Holdings''), (''AAPLW'', []), (''MSFT'', ''Microsoft''),
          (''AAPL'', ''Apple Inc.'')])))
    = [''AAPL - Apple Inc.'', ''AAPLW'', ''ZZZ - Aapl Holdings'']"
    by code_simp
  from displayed_for_query [OF a, of
      "[(''ZZZ'', ''Aapl Holdings''), (''AAPLW'', []), (''MSFT'', ''Microsoft''), (''AAPL'', ''Apple Inc.'')]"
      "[''old entry'']"] c
  show ?thesis by auto
qed

text \<open>
  The claim as it is written fails where the order of two symbols differs from the order
  of their lowercased forms: both records below have rank 2 for the query \<^verbatim>\<open>x\<close>, the
  symbol \<^verbatim>\<open>AX\<close> is before \<^verbatim>\<open>_X\<close>, and the list shows \<^verbatim>\<open>_X\<close> first.
\<close>

theorem lowercased_symbol_order_counterexample:
  "rank_symbol_key ''x'' (''AX'', []) < rank_symbol_key ''x'' (''_X'', [])
   \<and> displayed_records [(''AX'', []), (''_X'', [])] ''x'' = [(''_X'', []), (''AX'', [])]
   \<and> update [(''AX'', []), (''_X'', [])] ''X'' [] = [''_X'', ''AX'']"
  by code_simp

subsection \<open>C6: the list shown for the empty query\<close>

text \<open>
  C6. With nothing in the search box the list box shows the labels of the first 100
  records of the full list, in the order of the list.
\<close>

theorem displayed_for_empty_query:
  "update stock_list [] my_list = map label (take 100 stock_list)
   \<and> displayed_records stock_list (lower []) = take 100 stock_list
   \<and> length (update stock_list [] my_list) = min 100 (length stock_list)"
  by (simp add: update_def displayed_records_def lower_def)

theorem displayed_for_empty_query_witness:
  "update [(''A'', ''Alpha''), (''B'', [])] [] [''old entry''] = map label [(''A'', ''Alpha''), (''B'', [])]
   \<and> map label [(''A'', ''Alpha''), (''B'', [])] = [''A - Alpha'', ''B'']"
  using displayed_for_empty_query [of "[(''A'', ''Alpha''), (''B'', [])]" "[''old entry'']"]
  by (simp add: label_def)

subsection \<open>C4: the cache of the day\<close>

text \<open>
  C4. With caching on, a cache file of today that loads is returned as it is: nothing is
  fetched, the file is looked at and read, and nothing else changes. When the file is
  missing, or is of another day, or does not load, the run does not fail for that reason:
  it fetches once, and its result is the result of the fetch, the same as with caching
  off.
\<close>

theorem cache_reuse:
  "(cache e = Some cf \<and> mtime_date cf = today e \<and> payload cf = Some stock_list \<longrightarrow>
      get_stock_list True e = (Inr stock_list, e\<lparr>trace := trace e @ [CacheStat, CacheRead]\<rparr>))
   \<and> (cache e = None
        \<or> (\<exists>cf. cache e = Some cf \<and> (mtime_date cf \<noteq> today e \<or> payload cf = None)) \<longrightarrow>
      fst (get_stock_list True e) =
        (case net e of None \<Rightarrow> Inl FetchFailed | Some raw \<Rightarrow> parse_symbol_file raw)
      \<and> fst (get_stock_list True e) = fst (get_stock_list False e)
      \<and> count_list (trace (snd (get_stock_list True e))) Fetch
          = Suc (count_list (trace e) Fetch))"
proof -
  have hit: "get_stock_list True e =
      (Inr stock_list, e\<lparr>trace := trace e @ [CacheStat, CacheRead]\<rparr>)"
    if "cache e = Some cf \<and> mtime_date cf = today e \<and> payload cf = Some stock_list"
    using that by (simp add: get_stock_list_def Let_def record_event_def)
  have fresh: "fst (fetch_and_parse uc e') =
      (case net e' of None \<Rightarrow> Inl FetchFailed | Some raw \<Rightarrow> parse_symbol_file raw)"
    for uc e'
    by (simp add: fetch_and_parse_def Let_def split: option.splits sum.splits)
  have fetched: "count_list (trace (snd (fetch_and_parse uc e'))) Fetch
      = Suc (count_list (trace e') Fetch)" for uc e'
    by (simp add: fetch_and_parse_def save_cache_def Let_def
        split: option.splits sum.splits write_outcome.splits)
  have miss: "fst (get_stock_list True e) =
        (case net e of None \<Rightarrow> Inl FetchFailed | Some raw \<Rightarrow> parse_symbol_file raw)
      \<and> fst (get_stock_list True e) = fst (get_stock_list False e)
      \<and> count_list (trace (snd (get_stock_list True e))) Fetch
          = Suc (count_list (trace e) Fetch)"
    if "cache e = None
        \<or> (\<exists>cf. cache e = Some cf \<and> (mtime_date cf \<noteq> today e \<or> payload cf = None))"
    using that
    by (auto simp: get_stock_list_def Let_def fresh fetched)
  from hit miss show ?thesis by blast
qed

text \<open>
  A cache file of today with no network at all, then no file, a file of yesterday and a
  file of today that does not load.
\<close>

theorem cache_reuse_witness:
  "get_stock_list True
     \<lparr>cache = Some \<lparr>mtime_date = 7, payload = Some [(''A'', ''Alpha'')]\<rparr>, today = 7,
      net = None, saving = WriteOk, trace = []\<rparr>
   = (Inr [(''A'', ''Alpha'')],
      \<lparr>cache = Some \<lparr>mtime_date = 7, payload = Some [(''A'', ''Alpha'')]\<rparr>, today = 7,
       net = None, saving = WriteOk, trace = [CacheStat, CacheRead]\<rparr>)
   \<and> fst (get_stock_list True
       \<lparr>cache = None, today = 7,
        net = Some (''Symbol|Security Name'' @ [CHR 0x0A] @ ''B|Beta''),
        saving = WriteOk, trace = []\<rparr>)
     = Inr [(''B'', ''Beta'')]
   \<and> fst (get_stock_list True
       \<lparr>cache = Some \<lparr>mtime_date = 6, payload = Some [(''A'', ''Alpha'')]\<rparr>, today = 7,
        net = Some (''Symbol|Security Name'' @ [CHR 0x0A] @ ''B|Beta''),
        saving = WriteOk, trace = []\<rparr>)
     = Inr [(''B'', ''Beta'')]
   \<and> fst (get_stock_list True
       \<lparr>cache = Some \<lparr>mtime_date = 7, payload = None\<rparr>, today = 7,
        net = Some (''Symbol|Security Name'' @ [CHR 0x0A] @ ''B|Beta''),
        saving = WriteOk, trace = []\<rparr>)
     = Inr [(''B'', ''Beta'')]"
proof -
  have p: "parse_symbol_file (''Symbol|Security Name'' @ [CHR 0x0A] @ ''B|Beta'')
      = Inr [(''B'', ''Beta'')]"
    by code_simp
  show ?thesis
    using
      cache_reuse [of "\<lparr>cache = Some \<lparr>mtime_date = 7, payload = Some [(''A'', ''Alpha'')]\<rparr>,
          today = 7, net = None, saving = WriteOk, trace = []\<rparr>"
        "\<lparr>mtime_date = 7, payload = Some [(''A'', ''Alpha'')]\<rparr>" "[(''A'', ''Alpha'')]"]
      cache_reuse [of "\<lparr>cache = None, today = 7,
          net = Some (''Symbol|Security Name'' @ [CHR 0x0A] @ ''B|Beta''),
          saving = WriteOk, trace = []\<rparr>"]
      cache_reuse [of "\<lparr>cache = Some \<lparr>mtime_date = 6, payload = Some [(''A'', ''Alpha'')]\<rparr>,
          today = 7, net = Some (''Symbol|Security Name'' @ [CHR 0x0A] @ ''B|Beta''),
          saving = WriteOk, trace = []\<rparr>"]
      cache_reuse [of "\<lparr>cache = Some \<lparr>mtime_date = 7, payload = None\<rparr>,
          today = 7, net = Some (''Symbol|Security Name'' @ [CHR 0x0A] @ ''B|Beta''),
          saving = WriteOk, trace = []\<rparr>"]
      p
    by simp
qed

subsection \<open>C9: running without the cache\<close>

text \<open>
  C9. With \<open>use_cache\<close> false, the way \<^verbatim>\<open>--no-cache\<close> runs the program,
  \<^verbatim>\<open>get_stock_list\<close> makes one request and does nothing else: it does not look at the
  cache file, read it or write it, the file is after the run what it was before, and the
  result does not depend on the file.
\<close>

theorem no_cache_flag_leaves_cache:
  "snd (get_stock_list False e) = e\<lparr>trace := trace e @ [Fetch]\<rparr>
   \<and> cache (snd (get_stock_list False e)) = cache e
   \<and> fst (get_stock_list False (e\<lparr>cache := c\<rparr>)) = fst (get_stock_list False e)
   \<and> run_main True e = get_stock_list False e"
  by (simp add: get_stock_list_def fetch_and_parse_def record_event_def run_main_def Let_def
      split: option.splits sum.splits)

theorem no_cache_flag_leaves_cache_witness:
  "cache (snd (get_stock_list False
       \<lparr>cache = Some \<lparr>mtime_date = 7, payload = Some [(''OLD'', ''Old'')]\<rparr>, today = 7,
        net = Some (''Symbol|Security Name'' @ [CHR 0x0A] @ ''B|Beta''),
        saving = WriteOk, trace = []\<rparr>))
     = Some \<lparr>mtime_date = 7, payload = Some [(''OLD'', ''Old'')]\<rparr>
   \<and> trace (snd (get_stock_list False
       \<lparr>cache = Some \<lparr>mtime_date = 7, payload = Some [(''OLD'', ''Old'')]\<rparr>, today = 7,
        net = Some (''Symbol|Security Name'' @ [CHR 0x0A] @ ''B|Beta''),
        saving = WriteOk, trace = []\<rparr>))
     = [Fetch]"
  using no_cache_flag_leaves_cache [of
      "\<lparr>cache = Some \<lparr>mtime_date = 7, payload = Some [(''OLD'', ''Old'')]\<rparr>, today = 7,
        net = Some (''Symbol|Security Name'' @ [CHR 0x0A] @ ''B|Beta''),
        saving = WriteOk, trace = []\<rparr>"]
  by simp

subsection \<open>C8: symbols are not empty\<close>

text \<open>
  C8, as the code has it. A list that \<^verbatim>\<open>get_stock_list\<close> returns has no record with an
  empty symbol when it comes from a fetch, and also when it comes from the cache file in a
  state the program reaches from a start without cache file, with nothing else writing
  the file. Lines 27 to 30 return what the cache file holds without looking at it.
\<close>

theorem returned_symbols_non_empty:
  assumes "reachable e \<or> \<not> (use_cache \<and> cache_hit e)"
    and "get_stock_list use_cache e = (Inr stock_list, e')"
    and "(s, n) \<in> set stock_list"
  shows "s \<noteq> []"
proof -
  from assms(1,2) have "well_formed stock_list"
    by (rule returned_well_formed)
  with assms(3) show ?thesis
    by (auto simp: well_formed_def list_all_iff)
qed

text \<open>A second run on the day of the first, served from the cache the first one wrote.\<close>

theorem returned_symbols_non_empty_witness:
  "reachable
     \<lparr>cache = Some \<lparr>mtime_date = 7, payload = Some [(''B'', ''Beta'')]\<rparr>, today = 7,
      net = Some (''Symbol|Security Name'' @ [CHR 0x0A] @ ''B|Beta''),
      saving = WriteOk, trace = [CacheStat, Fetch, CacheWrite]\<rparr>
   \<and> get_stock_list True
     \<lparr>cache = Some \<lparr>mtime_date = 7, payload = Some [(''B'', ''Beta'')]\<rparr>, today = 7,
      net = Some (''Symbol|Security Name'' @ [CHR 0x0A] @ ''B|Beta''),
      saving = WriteOk, trace = [CacheStat, Fetch, CacheWrite]\<rparr>
     = (Inr [(''B'', ''Beta'')],
        \<lparr>cache = Some \<lparr>mtime_date = 7, payload = Some [(''B'', ''Beta'')]\<rparr>, today = 7,
         net = Some (''Symbol|Security Name'' @ [CHR 0x0A] @ ''B|Beta''),
         saving = WriteOk, trace = [CacheStat, Fetch, CacheWrite, CacheStat, CacheRead]\<rparr>)
   \<and> (''B'', ''Beta'') \<in> set [(''B'', ''Beta'')]
   \<and> ''B'' \<noteq> []"
proof -
  let ?src = "''Symbol|Security Name'' @ [CHR 0x0A] @ ''B|Beta''"
  let ?e0 = "\<lparr>cache = None, today = 7, net = Some ?src, saving = WriteOk, trace = []\<rparr>"
  let ?e1 = "\<lparr>cache = Some \<lparr>mtime_date = 7, payload = Some [(''B'', ''Beta'')]\<rparr>, today = 7,
      net = Some ?src, saving = WriteOk, trace = [CacheStat, Fetch, CacheWrite]\<rparr>"
  let ?e2 = "\<lparr>cache = Some \<lparr>mtime_date = 7, payload = Some [(''B'', ''Beta'')]\<rparr>, today = 7,
      net = Some ?src, saving = WriteOk,
      trace = [CacheStat, Fetch, CacheWrite, CacheStat, CacheRead]\<rparr>"
  have p: "parse_symbol_file ?src = Inr [(''B'', ''Beta'')]"
    by code_simp
  have r0: "reachable ?e0"
    by (rule reachable.start) simp
  have s: "snd (get_stock_list True ?e0) = ?e1"
    by (simp add: get_stock_list_def fetch_and_parse_def save_cache_def record_event_def
        Let_def p [simplified])
  have r: "reachable ?e1"
    using reachable.run [OF r0, of True] by (simp only: s)
  have g: "get_stock_list True ?e1 = (Inr [(''B'', ''Beta'')], ?e2)"
    by (simp add: get_stock_list_def record_event_def)
  have m: "(''B'', ''Beta'') \<in> set [(''B'', ''Beta'')]"
    by simp
  have x: "''B'' \<noteq> []"
    by (rule returned_symbols_non_empty [OF disjI1 [OF r] g m])
  show ?thesis
    by (intro conjI r g m x)
qed

text \<open>
  The claim as it is written fails on a cache file of today that some other writer left
  with a record of empty symbol: the list is returned as it is.
\<close>

theorem foreign_cache_counterexample:
  "get_stock_list True
     \<lparr>cache = Some \<lparr>mtime_date = 7, payload = Some [([], ''Nameless'')]\<rparr>, today = 7,
      net = None, saving = WriteOk, trace = []\<rparr>
   = (Inr [([], ''Nameless'')],
      \<lparr>cache = Some \<lparr>mtime_date = 7, payload = Some [([], ''Nameless'')]\<rparr>, today = 7,
       net = None, saving = WriteOk, trace = [CacheStat, CacheRead]\<rparr>)"
  by (simp add: get_stock_list_def record_event_def)

subsection \<open>C5: an empty source, no records\<close>

text \<open>
  C5. When \<^verbatim>\<open>get_stock_list\<close> fetches (caching is off or the cache is not a hit) and the
  request returns a text: the result is the error of the empty file when the text is
  empty, or has no line once stripped; otherwise the parser yields a list of records, and
  the result is the error of no tickers when that list is empty and the list itself when
  it is not. A list that \<^verbatim>\<open>get_stock_list\<close> returns, from a fetch or in a reachable
  state, is never empty.
\<close>

theorem fetched_source_errors:
  "(\<not> (use_cache \<and> cache_hit e) \<and> net e = Some raw \<longrightarrow>
      (raw = [] \<longrightarrow> fst (get_stock_list use_cache e) = Inl EmptyFile)
      \<and> (splitlines (strip raw) = [] \<and> fst (get_stock_list use_cache e) = Inl EmptyFile
         \<or> (\<exists>header rows out. splitlines (strip raw) = header # rows
               \<and> parse_records header rows = Inr out
               \<and> fst (get_stock_list use_cache e)
                   = (if out = [] then Inl NoTickers else Inr out))))
   \<and> ((reachable e \<or> \<not> (use_cache \<and> cache_hit e))
        \<and> fst (get_stock_list use_cache e) = Inr stock_list \<longrightarrow>
      stock_list \<noteq> [])"
proof -
  have fresh: "fst (fetch_and_parse uc e') =
      (case net e' of None \<Rightarrow> Inl FetchFailed | Some raw \<Rightarrow> parse_symbol_file raw)"
    for uc e'
    by (simp add: fetch_and_parse_def Let_def split: option.splits sum.splits)
  have empty: "splitlines (strip []) = []"
    by (simp add: splitlines_def strip_def lstrip_def rstrip_def)
  have p: "splitlines (strip raw) = [] \<and> parse_symbol_file raw = Inl EmptyFile
      \<or> (\<exists>header rows out. splitlines (strip raw) = header # rows
            \<and> parse_records header rows = Inr out
            \<and> parse_symbol_file raw = (if out = [] then Inl NoTickers else Inr out))"
  proof (cases "splitlines (strip raw)")
    case Nil
    then show ?thesis by (simp add: parse_symbol_file_def)
  next
    case (Cons header rows)
    obtain i j t where h: "header_indices (split CHR ''|'' header) = (i, j, t)"
      by (cases "header_indices (split CHR ''|'' header)") auto
    from Cons show ?thesis
      by (simp add: parse_symbol_file_def parse_records_eq [OF h])
  qed
  have fetched: "(raw = [] \<longrightarrow> fst (get_stock_list use_cache e) = Inl EmptyFile)
      \<and> (splitlines (strip raw) = [] \<and> fst (get_stock_list use_cache e) = Inl EmptyFile
         \<or> (\<exists>header rows out. splitlines (strip raw) = header # rows
               \<and> parse_records header rows = Inr out
               \<and> fst (get_stock_list use_cache e)
                   = (if out = [] then Inl NoTickers else Inr out)))"
    if "\<not> (use_cache \<and> cache_hit e) \<and> net e = Some raw"
  proof -
    from that have r: "fst (get_stock_list use_cache e) = parse_symbol_file raw"
      by (auto simp: get_stock_list_def Let_def cache_hit_def fresh split: option.splits)
    from r p empty show ?thesis
      by (auto simp: parse_symbol_file_def)
  qed
  have returned: "stock_list \<noteq> []"
    if "(reachable e \<or> \<not> (use_cache \<and> cache_hit e))
        \<and> fst (get_stock_list use_cache e) = Inr stock_list"
  proof -
    from that have g: "get_stock_list use_cache e
        = (Inr stock_list, snd (get_stock_list use_cache e))"
      by (metis prod.collapse)
    from that have "well_formed stock_list"
      using returned_well_formed [OF _ g] by blast
    then show ?thesis
      by (simp add: well_formed_def)
  qed
  from fetched returned show ?thesis by blast
qed

text \<open>An empty text, a header alone, and a header with one row.\<close>

theorem fetched_source_errors_witness:
  "fst (get_stock_list False
       \<lparr>cache = None, today = 7, net = Some [], saving = WriteOk, trace = []\<rparr>)
     = Inl EmptyFile
   \<and> fst (get_stock_list True
       \<lparr>cache = None, today = 7, net = Some ''Symbol|Security Name'',
        saving = WriteOk, trace = []\<rparr>)
     = Inl NoTickers
   \<and> fst (get_stock_list True
       \<lparr>cache = None, today = 7,
        net = Some (''Symbol|Security Name'' @ [CHR 0x0A] @ ''B|Beta''),
        saving = WriteOk, trace = []\<rparr>)
     = Inr [(''B'', ''Beta'')]
   \<and> [(''B'', ''Beta'')] \<noteq> ([] :: ticker list)"
proof -
  let ?src = "''Symbol|Security Name'' @ [CHR 0x0A] @ ''B|Beta''"
  let ?a = "\<lparr>cache = None, today = 7, net = Some [], saving = WriteOk, trace = []\<rparr>"
  let ?b = "\<lparr>cache = None, today = 7, net = Some ''Symbol|Security Name'',
        saving = WriteOk, trace = []\<rparr>"
  let ?c = "\<lparr>cache = None, today = 7, net = Some ?src, saving = WriteOk, trace = []\<rparr>"
  have ha: "\<not> (False \<and> cache_hit ?a) \<and> net ?a = Some []"
    by simp
  have hb: "\<not> (True \<and> cache_hit ?b) \<and> net ?b = Some ''Symbol|Security Name''"
    by (simp add: cache_hit_def)
  have hc: "\<not> (True \<and> cache_hit ?c) \<and> net ?c = Some ?src"
    by (simp add: cache_hit_def)
  have lb: "splitlines (strip ''Symbol|Security Name'') = [''Symbol|Security Name'']"
    and pb: "parse_records ''Symbol|Security Name'' [] = Inr []"
    and lc: "splitlines (strip ?src) = [''Symbol|Security Name'', ''B|Beta'']"
    and pc: "parse_records ''Symbol|Security Name'' [''B|Beta''] = Inr [(''B'', ''Beta'')]"
    by code_simp+
  have a: "fst (get_stock_list False ?a) = Inl EmptyFile"
    using fetched_source_errors [of False ?a "[]"] ha by simp
  have b: "fst (get_stock_list True ?b) = Inl NoTickers"
    using fetched_source_errors [of True ?b "''Symbol|Security Name''"] hb lb pb by auto
  have c: "fst (get_stock_list True ?c) = Inr [(''B'', ''Beta'')]"
    using fetched_source_errors [of True ?c ?src] hc lc pc by auto
  have d: "[(''B'', ''Beta'')] \<noteq> ([] :: ticker list)"
    using fetched_source_errors [of True ?c ?src "[(''B'', ''Beta'')]"] hc c by blast
  show ?thesis
    by (intro conjI a b c d)
qed

end
